theory Spec2Isabelle
  imports Main
begin

section \<open>Data model (src/types/index.ts)\<close>

text \<open>
  The three interfaces of the record repository. A field name may be used by one record
  only, so the fields of \<open>AlbumReviewStatus\<close> carry the prefix \<open>st_\<close>, those of
  \<open>AlbumMeta\<close> the prefix \<open>meta_\<close> and those of \<open>Partial<AlbumReviewStatus>\<close> the
  prefix \<open>p_\<close>. The two-valued string type of \<open>reviewStatus\<close> is a datatype:
  \<open>Reviewed\<close> is the source's "yi chou ka" literal, \<open>Unreviewed\<close> its "wei chou ka"
  literal. A JavaScript number is an \<open>int\<close> here; an optional field is an \<open>option\<close>.
\<close>

record Album =
  albumId :: string
  albumName :: string
  bookName :: string
  category :: string
  image1 :: string
  image2 :: string
  image3 :: string
  image4 :: string

datatype ReviewState = Reviewed | Unreviewed

record AlbumReviewStatus =
  st_albumId :: string
  st_albumName :: string
  st_bookName :: string
  st_category :: string
  st_reviewProgress :: int
  st_reviewStatus :: ReviewState
  st_selectedImageIndex :: "int option"
  st_selectedImageLink :: "string option"

record AlbumMeta =
  meta_albumId :: string
  meta_importedAt :: string

text \<open>\<open>Partial<AlbumReviewStatus>\<close>: every field may be missing.\<close>

record PartialReviewStatus =
  p_albumId :: "string option"
  p_albumName :: "string option"
  p_bookName :: "string option"
  p_category :: "string option"
  p_reviewProgress :: "int option"
  p_reviewStatus :: "ReviewState option"
  p_selectedImageIndex :: "int option"
  p_selectedImageLink :: "string option"

section \<open>The persistent store (the storage module, second part of src/utils/export.ts)\<close>

text \<open>
  The three keys of the local store that the repository reads and rewrites as a whole:
  the album array (its order is the catalogue order), and the two objects keyed by album
  identifier. An object is a map; a lookup of a key that is not there is \<open>None\<close>
  (JavaScript's \<open>undefined\<close>, which is falsy, while every stored record is truthy).
  A stored object is the map of its own keys, as \<open>JSON.parse\<close> builds it and
  \<open>Object.entries\<close> and \<open>JSON.stringify\<close> read it. A read \<open>obj[k]\<close> also finds what
  every object inherits from \<open>Object.prototype\<close> (\<open>object_get\<close> below). A write under
  the key \<open>__proto__\<close>, which sets the prototype and adds no key, is not modelled.
  The operation log is never read by the operations below and is left out.
\<close>

record storage =
  albums_data :: "Album list"
  review_status :: "string \<rightharpoonup> AlbumReviewStatus"
  album_meta :: "string \<rightharpoonup> AlbumMeta"

definition empty_storage :: storage where
  "empty_storage = \<lparr>albums_data = [], review_status = Map.empty, album_meta = Map.empty\<rparr>"

definition getAllAlbums :: "storage \<Rightarrow> Album list" where
  "getAllAlbums s = albums_data s"

definition getAllReviewStatus :: "storage \<Rightarrow> (string \<rightharpoonup> AlbumReviewStatus)" where
  "getAllReviewStatus s = review_status s"

definition getAlbumMetaMap :: "storage \<Rightarrow> (string \<rightharpoonup> AlbumMeta)" where
  "getAlbumMetaMap s = album_meta s"

definition saveAlbums :: "Album list \<Rightarrow> storage \<Rightarrow> storage" where
  "saveAlbums as s = s\<lparr>albums_data := as\<rparr>"

definition saveReviewStatus :: "(string \<rightharpoonup> AlbumReviewStatus) \<Rightarrow> storage \<Rightarrow> storage" where
  "saveReviewStatus st s = s\<lparr>review_status := st\<rparr>"

definition saveAlbumMetaMap :: "(string \<rightharpoonup> AlbumMeta) \<Rightarrow> storage \<Rightarrow> storage" where
  "saveAlbumMetaMap m s = s\<lparr>album_meta := m\<rparr>"

subsection \<open>Helpers for the JavaScript library calls\<close>

text \<open>\<open>albums.find(a => a.albumId === albumId)\<close>: the first album with that identifier.\<close>

definition findAlbum :: "Album list \<Rightarrow> string \<Rightarrow> Album option" where
  "findAlbum as i = find (\<lambda>a. albumId a = i) as"

text \<open>\<open>xs.findIndex(p)\<close>: the index of the first element satisfying \<open>p\<close>, or \<open>-1\<close>.\<close>

fun findIndex :: "('a \<Rightarrow> bool) \<Rightarrow> 'a list \<Rightarrow> int" where
  "findIndex p [] = - 1"
| "findIndex p (x # xs) =
     (if p x then 0 else (let i = findIndex p xs in if i = - 1 then - 1 else i + 1))"

text \<open>
  The read \<open>obj[k]\<close> of a plain object: the value of the own key \<open>k\<close> when there is
  one; otherwise, when \<open>k\<close> names a member of \<open>Object.prototype\<close>, that inherited member
  (a function, or the prototype itself for \<open>__proto__\<close>), which is truthy and has none of
  the fields of a stored record; otherwise \<open>undefined\<close>.
\<close>

datatype 'v lookup = Absent | Own 'v | Inherited

definition OBJECT_PROTOTYPE_KEYS :: "string list" where
  "OBJECT_PROTOTYPE_KEYS =
     [''constructor'', ''hasOwnProperty'', ''isPrototypeOf'', ''propertyIsEnumerable'',
      ''toLocaleString'', ''toString'', ''valueOf'', ''__proto__'', ''__defineGetter__'',
      ''__defineSetter__'', ''__lookupGetter__'', ''__lookupSetter__'']"

definition object_get :: "(string \<rightharpoonup> 'v) \<Rightarrow> string \<Rightarrow> 'v lookup" where
  "object_get obj k =
     (case obj k of
        Some v \<Rightarrow> Own v
      | None \<Rightarrow> if k \<in> set OBJECT_PROTOTYPE_KEYS then Inherited else Absent)"

text \<open>
  The two tests on a status read. \<open>status && status.reviewStatus === Reviewed\<close> is false
  for an inherited member, whose \<open>reviewStatus\<close> is \<open>undefined\<close>; so is
  \<open>!status || status.reviewStatus === Unreviewed\<close>, since the member is truthy.
\<close>

definition isReviewed :: "(string \<rightharpoonup> AlbumReviewStatus) \<Rightarrow> string \<Rightarrow> bool" where
  "isReviewed st i =
     (case object_get st i of
        Absent \<Rightarrow> False
      | Own r \<Rightarrow> st_reviewStatus r = Reviewed
      | Inherited \<Rightarrow> False)"

definition isUnreviewed :: "(string \<rightharpoonup> AlbumReviewStatus) \<Rightarrow> string \<Rightarrow> bool" where
  "isUnreviewed st i =
     (case object_get st i of
        Absent \<Rightarrow> True
      | Own r \<Rightarrow> st_reviewStatus r = Unreviewed
      | Inherited \<Rightarrow> False)"

text \<open>
  A JavaScript \<open>Map<string, Album>\<close> keeps its keys in the order of their first
  insertion: \<open>set\<close> on a key that is present replaces the value in place, \<open>set\<close> on a
  new key appends. \<open>Array.from(m.values())\<close> and \<open>m.keys()\<close> read that order.
\<close>

type_synonym 'v jsmap = "(string \<times> 'v) list"

fun map_set :: "'v jsmap \<Rightarrow> string \<Rightarrow> 'v \<Rightarrow> 'v jsmap" where
  "map_set [] k v = [(k, v)]"
| "map_set ((k', v') # m) k v =
     (if k' = k then (k, v) # m else (k', v') # map_set m k v)"

definition map_has :: "'v jsmap \<Rightarrow> string \<Rightarrow> bool" where
  "map_has m k = (k \<in> set (map fst m))"

definition map_values :: "'v jsmap \<Rightarrow> 'v list" where
  "map_values m = map snd m"

definition map_keys :: "'v jsmap \<Rightarrow> string list" where
  "map_keys m = map fst m"

text \<open>
  \<open>Object.entries(obj).forEach(([id, v]) => { if (keep(id)) out[id] = v })\<close> into a
  fresh object \<open>out\<close>: the entries whose key passes the test.
\<close>

definition filter_entries :: "(string \<Rightarrow> bool) \<Rightarrow> (string \<rightharpoonup> 'v) \<Rightarrow> (string \<rightharpoonup> 'v)" where
  "filter_entries keep obj = (\<lambda>i. if keep i then obj i else None)"

section \<open>The record repository (the storage module, second part of src/utils/export.ts)\<close>

subsection \<open>updateAlbumReviewStatus\<close>

datatype error = AlbumNotFound

text \<open>
  The function throws before any write when no album has the identifier. The result is
  the outcome together with the store after the call, so that what a failed call leaves
  behind is part of the model. \<open>existingStatus?.field\<close> is \<open>undefined\<close> when the read
  found no row or an inherited member, and the default applies.
\<close>

definition updateAlbumReviewStatus ::
  "string \<Rightarrow> PartialReviewStatus \<Rightarrow> storage \<Rightarrow> (error + unit) \<times> storage" where
  "updateAlbumReviewStatus i status s =
     (let allStatus = getAllReviewStatus s in
      case findAlbum (getAllAlbums s) i of
        None \<Rightarrow> (Inl AlbumNotFound, s)
      | Some album \<Rightarrow>
          (let existingStatus = object_get allStatus i;
               new = \<lparr>st_albumId = i,
                      st_albumName = albumName album,
                      st_bookName = bookName album,
                      st_category = category album,
                      st_reviewProgress =
                        (case p_reviewProgress status of Some v \<Rightarrow> v
                         | None \<Rightarrow> (case existingStatus of Own e \<Rightarrow> st_reviewProgress e
                                    | _ \<Rightarrow> 0)),
                      st_reviewStatus =
                        (case p_reviewStatus status of Some v \<Rightarrow> v
                         | None \<Rightarrow> (case existingStatus of Own e \<Rightarrow> st_reviewStatus e
                                    | _ \<Rightarrow> Unreviewed)),
                      st_selectedImageIndex =
                        (case p_selectedImageIndex status of Some v \<Rightarrow> Some v
                         | None \<Rightarrow> (case existingStatus of
                                      Own e \<Rightarrow> st_selectedImageIndex e
                                    | _ \<Rightarrow> None)),
                      st_selectedImageLink =
                        (case p_selectedImageLink status of Some v \<Rightarrow> Some v
                         | None \<Rightarrow> (case existingStatus of
                                      Own e \<Rightarrow> st_selectedImageLink e
                                    | _ \<Rightarrow> None))\<rparr>
           in (Inr (), saveReviewStatus (allStatus(i \<mapsto> new)) s)))"

subsection \<open>batchUpdateReviewStatus\<close>

text \<open>
  The link written for a rejected album: the five-character literal of the source
  ("chou ka bu tong guo"), as its UTF-8 bytes.
\<close>

definition REJECTED_LINK :: string where
  "REJECTED_LINK =
     [CHR 0xE6, CHR 0x8A, CHR 0xBD, CHR 0xE5, CHR 0x8D, CHR 0xA1, CHR 0xE4, CHR 0xB8,
      CHR 0x8D, CHR 0xE9, CHR 0x80, CHR 0x9A, CHR 0xE8, CHR 0xBF, CHR 0x87]"

definition rejectedStatus :: "string \<Rightarrow> Album \<Rightarrow> AlbumReviewStatus" where
  "rejectedStatus i album =
     \<lparr>st_albumId = i,
      st_albumName = albumName album,
      st_bookName = bookName album,
      st_category = category album,
      st_reviewProgress = 0,
      st_reviewStatus = Reviewed,
      st_selectedImageIndex = None,
      st_selectedImageLink = Some REJECTED_LINK\<rparr>"

text \<open>
  One pass of the \<open>forEach\<close> body over \<open>allStatus\<close>, the object being filled; the album
  array is read from the store, which the loop does not write.
\<close>

definition rejectOne ::
  "Album list \<Rightarrow> (string \<rightharpoonup> AlbumReviewStatus) \<Rightarrow> string \<Rightarrow> (string \<rightharpoonup> AlbumReviewStatus)" where
  "rejectOne as allStatus i =
     (if isReviewed allStatus i then allStatus
      else case findAlbum as i of
             None \<Rightarrow> allStatus
           | Some album \<Rightarrow> allStatus(i \<mapsto> rejectedStatus i album))"

fun rejectAll ::
  "Album list \<Rightarrow> (string \<rightharpoonup> AlbumReviewStatus) \<Rightarrow> string list \<Rightarrow> (string \<rightharpoonup> AlbumReviewStatus)" where
  "rejectAll as allStatus [] = allStatus"
| "rejectAll as allStatus (i # is) = rejectAll as (rejectOne as allStatus i) is"

definition batchUpdateReviewStatus :: "string list \<Rightarrow> storage \<Rightarrow> storage" where
  "batchUpdateReviewStatus albumIds s =
     saveReviewStatus (rejectAll (getAllAlbums s) (getAllReviewStatus s) albumIds) s"

subsection \<open>importAlbums\<close>

text \<open>
  The first loop keeps the reviewed albums of the store and their metadata; the second
  loop applies the incoming rows in order. \<open>now\<close> is the ISO string of the clock at the
  call, read once. When \<open>existingMeta[album.albumId]\<close> is an inherited member, the first
  loop copies that member into \<open>metaToKeep\<close>; it is a function, which \<open>JSON.stringify\<close>
  leaves out on saving (or the prototype, for \<open>__proto__\<close>, which adds no key), so that no
  metadata row results.
\<close>

fun keepReviewed ::
  "(string \<rightharpoonup> AlbumReviewStatus) \<Rightarrow> (string \<rightharpoonup> AlbumMeta) \<Rightarrow> Album list \<Rightarrow>
   Album jsmap \<times> (string \<rightharpoonup> AlbumMeta) \<Rightarrow> Album jsmap \<times> (string \<rightharpoonup> AlbumMeta)" where
  "keepReviewed existingStatus existingMeta [] acc = acc"
| "keepReviewed existingStatus existingMeta (album # rest) (albumMap, metaToKeep) =
     keepReviewed existingStatus existingMeta rest
       (if isReviewed existingStatus (albumId album)
        then (map_set albumMap (albumId album) album,
              (case object_get existingMeta (albumId album) of
                 Absent \<Rightarrow> metaToKeep
               | Own m \<Rightarrow> metaToKeep(albumId album \<mapsto> m)
               | Inherited \<Rightarrow> metaToKeep))
        else (albumMap, metaToKeep))"

fun addNew ::
  "string \<Rightarrow> Album list \<Rightarrow> Album jsmap \<times> (string \<rightharpoonup> AlbumMeta) \<times> nat \<Rightarrow>
   Album jsmap \<times> (string \<rightharpoonup> AlbumMeta) \<times> nat" where
  "addNew nowIso [] acc = acc"
| "addNew nowIso (album # rest) (albumMap, metaToKeep, duplicates) =
     addNew nowIso rest
       (map_set albumMap (albumId album) album,
        metaToKeep(albumId album \<mapsto> \<lparr>meta_albumId = albumId album, meta_importedAt = nowIso\<rparr>),
        (if map_has albumMap (albumId album) then duplicates + 1 else duplicates))"

record import_result =
  imported :: nat
  duplicates :: nat

definition importAlbums :: "string \<Rightarrow> Album list \<Rightarrow> storage \<Rightarrow> import_result \<times> storage" where
  "importAlbums nowIso newAlbums s =
     (let existingAlbums = getAllAlbums s;
          existingStatus = getAllReviewStatus s;
          existingMeta = getAlbumMetaMap s;
          (kept, keptMeta) =
            keepReviewed existingStatus existingMeta existingAlbums ([], Map.empty);
          (albumMap, metaToKeep, dups) = addNew nowIso newAlbums (kept, keptMeta, 0);
          s1 = saveAlbums (map_values albumMap) s;
          albumIds = set (map_keys albumMap);
          statusToKeep = filter_entries (\<lambda>i. i \<in> albumIds) existingStatus;
          s2 = saveReviewStatus statusToKeep s1;
          metaCleaned = filter_entries (\<lambda>i. i \<in> albumIds) metaToKeep;
          s3 = saveAlbumMetaMap metaCleaned s2
      in (\<lparr>imported = length newAlbums, duplicates = dups\<rparr>, s3))"

subsection \<open>deleteAlbums\<close>

text \<open>
  \<open>new Set(albumIdsToDelete).size\<close> is the number of distinct requested identifiers; a
  request with none returns before any read or write.
\<close>

definition deleteAlbums :: "string list \<Rightarrow> storage \<Rightarrow> nat \<times> storage" where
  "deleteAlbums albumIdsToDelete s =
     (let deleteSet = set albumIdsToDelete;
          size = length (remdups albumIdsToDelete)
      in if size = 0 then (0, s)
         else
           (let albums = getAllAlbums s;
                status = getAllReviewStatus s;
                meta = getAlbumMetaMap s;
                remainingAlbums = filter (\<lambda>a. albumId a \<notin> deleteSet) albums;
                remainingStatus = filter_entries (\<lambda>i. i \<notin> deleteSet) status;
                remainingMeta = filter_entries (\<lambda>i. i \<notin> deleteSet) meta
            in (size,
                saveAlbumMetaMap remainingMeta
                  (saveReviewStatus remainingStatus (saveAlbums remainingAlbums s)))))"

section \<open>The review navigator (the ReviewPage component, second part of src/pages/ImportPage.tsx)\<close>

definition unreviewedAlbums :: "storage \<Rightarrow> Album list" where
  "unreviewedAlbums s =
     filter (\<lambda>a. isUnreviewed (getAllReviewStatus s) (albumId a)) (getAllAlbums s)"

definition getNextUnreviewedAlbumId :: "storage \<Rightarrow> string \<Rightarrow> string option" where
  "getNextUnreviewedAlbumId s current =
     (let unreviewed = unreviewedAlbums s in
      if length unreviewed = 0 then None
      else
        (let idx = findIndex (\<lambda>a. albumId a = current) unreviewed in
         if idx = - 1 then Some (albumId (unreviewed ! 0))
         else if idx \<ge> int (length unreviewed) - 1 then None
         else Some (albumId (unreviewed ! nat (idx + 1)))))"

text \<open>
  The three memoised counters of the page and the progress text. The route parameter may
  be missing (\<open>None\<close>); \<open>!albumId\<close> also holds for the empty string. The text
  \<open>`${safeCurrent}/${totalAlbumCount}`\<close> is the pair of its two numbers.
\<close>

definition totalAlbumCount :: "storage \<Rightarrow> int" where
  "totalAlbumCount s = int (length (getAllAlbums s))"

definition unreviewedCount :: "storage \<Rightarrow> int" where
  "unreviewedCount s = int (length (unreviewedAlbums s))"

definition currentIndex :: "storage \<Rightarrow> string option \<Rightarrow> int" where
  "currentIndex s albumIdParam =
     findIndex (\<lambda>a. Some (albumId a) = albumIdParam) (unreviewedAlbums s) + 1"

definition falsy :: "string option \<Rightarrow> bool" where
  "falsy p = (case p of None \<Rightarrow> True | Some x \<Rightarrow> x = [])"

definition progressText :: "string option \<Rightarrow> int \<Rightarrow> int \<Rightarrow> int \<Rightarrow> int \<times> int" where
  "progressText albumIdParam totalN unreviewedN currentIdx =
     (if falsy albumIdParam then (0, totalN)
      else if totalN \<le> 0 then (0, 0)
      else
        (let reviewedCount = max 0 (totalN - unreviewedN);
             currentOverallIndex =
               (if currentIdx > 0 then reviewedCount + currentIdx else reviewedCount);
             safeCurrent = min (max currentOverallIndex 0) totalN
         in (safeCurrent, totalN)))"

definition overallProgressText :: "storage \<Rightarrow> string option \<Rightarrow> int \<times> int" where
  "overallProgressText s albumIdParam =
     progressText albumIdParam (totalAlbumCount s) (unreviewedCount s) (currentIndex s albumIdParam)"

section \<open>Auxiliary definitions for the statements\<close>

text \<open>
  The operations as the pages call them, one after the other, starting from a store: an
  import with the clock value of the call, a status update (a failed update leaves the
  store as it was), a batch reject and a deletion. \<open>consistent\<close> is the relation between
  the three collections, \<open>keyed\<close> the shape of the merged map during an import,
  \<open>reviewedIds\<close> the identifiers of the stored albums whose status is reviewed, and
  \<open>clamp\<close> the bounding of a value between two limits.

  \<open>absentOrUnreviewed\<close> and \<open>unreviewedSubsequence\<close> follow the words of the
  specification, not the code: the status of an identifier is absent when the status map
  has no row for it, and the unreviewed subsequence is the Albums collection in stored
  order, filtered to the identifiers whose status is absent or unreviewed.
\<close>

definition absentOrUnreviewed :: "(string \<rightharpoonup> AlbumReviewStatus) \<Rightarrow> string \<Rightarrow> bool" where
  "absentOrUnreviewed st i =
     (case st i of None \<Rightarrow> True | Some r \<Rightarrow> st_reviewStatus r = Unreviewed)"

definition unreviewedSubsequence :: "storage \<Rightarrow> string list" where
  "unreviewedSubsequence s =
     map albumId
       (filter (\<lambda>a. absentOrUnreviewed (review_status s) (albumId a)) (albums_data s))"

definition keyed :: "Album jsmap \<Rightarrow> bool" where
  "keyed m = (\<forall>(k, a) \<in> set m. albumId a = k)"

definition reviewedIds :: "storage \<Rightarrow> string set" where
  "reviewedIds s =
     albumId ` set (filter (\<lambda>a. isReviewed (review_status s) (albumId a)) (albums_data s))"

datatype operation =
    ImportBatch string "Album list"
  | UpdateStatus string PartialReviewStatus
  | BatchReject "string list"
  | DeleteRecords "string list"

fun apply_operation :: "operation \<Rightarrow> storage \<Rightarrow> storage" where
  "apply_operation (ImportBatch nowIso newAlbums) s = snd (importAlbums nowIso newAlbums s)"
| "apply_operation (UpdateStatus i status) s = snd (updateAlbumReviewStatus i status s)"
| "apply_operation (BatchReject albumIds) s = batchUpdateReviewStatus albumIds s"
| "apply_operation (DeleteRecords albumIds) s = snd (deleteAlbums albumIds s)"

fun run :: "operation list \<Rightarrow> storage \<Rightarrow> storage" where
  "run [] s = s"
| "run (operation # rest) s = run rest (apply_operation operation s)"

definition consistent :: "storage \<Rightarrow> bool" where
  "consistent s \<longleftrightarrow>
     dom (review_status s) \<subseteq> albumId ` set (albums_data s) \<and>
     dom (album_meta s) \<subseteq> albumId ` set (albums_data s)"

definition clamp :: "int \<Rightarrow> int \<Rightarrow> int \<Rightarrow> int" where
  "clamp lo hi x = (if x < lo then lo else if hi < x then hi else x)"

section \<open>Sample stores\<close>

text \<open>
  Concrete albums and stores on which the theorems below are instantiated.
  \<open>albumA2\<close> is an incoming row with the identifier of \<open>albumA\<close> and other contents.
  In \<open>store_ab\<close> the album \<open>a1\<close> is reviewed and \<open>b2\<close> has no status row; \<open>store_a\<close>
  holds the reviewed album only, \<open>store_b\<close> the unreviewed one only, and \<open>store_abc\<close>
  three albums without any status row. In \<open>store_mixed\<close> the album \<open>b2\<close> has an
  unreviewed row, \<open>a1\<close> a reviewed row and \<open>c3\<close> none. \<open>albumT\<close> is an album whose
  identifier is \<open>toString\<close>; \<open>store_tb\<close> and \<open>store_bt\<close> hold it with \<open>albumB\<close>, in
  the two orders, without any status row.
\<close>

definition albumA :: Album where
  "albumA = \<lparr>albumId = ''a1'', albumName = ''Alpha'', bookName = ''Book A'', category = ''cat1'',
     image1 = ''u1'', image2 = ''u2'', image3 = [], image4 = []\<rparr>"

definition albumA2 :: Album where
  "albumA2 = \<lparr>albumId = ''a1'', albumName = ''Alpha bis'', bookName = ''Book A'', category = ''cat9'',
     image1 = ''v1'', image2 = [], image3 = [], image4 = []\<rparr>"

definition albumB :: Album where
  "albumB = \<lparr>albumId = ''b2'', albumName = ''Beta'', bookName = ''Book B'', category = ''cat2'',
     image1 = ''w1'', image2 = ''w2'', image3 = ''w3'', image4 = ''w4''\<rparr>"

definition albumC :: Album where
  "albumC = \<lparr>albumId = ''c3'', albumName = ''Gamma'', bookName = ''Book C'', category = ''cat1'',
     image1 = ''x1'', image2 = [], image3 = [], image4 = []\<rparr>"

definition albumT :: Album where
  "albumT = \<lparr>albumId = ''toString'', albumName = ''Tau'', bookName = ''Book T'',
     category = ''cat3'', image1 = ''y1'', image2 = ''y2'', image3 = [], image4 = []\<rparr>"

definition statusA :: AlbumReviewStatus where
  "statusA = \<lparr>st_albumId = ''a1'', st_albumName = ''Alpha'', st_bookName = ''Book A'',
     st_category = ''cat1'', st_reviewProgress = 1, st_reviewStatus = Reviewed,
     st_selectedImageIndex = Some 2, st_selectedImageLink = Some ''u2''\<rparr>"

definition metaA :: AlbumMeta where
  "metaA = \<lparr>meta_albumId = ''a1'', meta_importedAt = ''2024-01-01T00:00:00.000Z''\<rparr>"

definition metaB :: AlbumMeta where
  "metaB = \<lparr>meta_albumId = ''b2'', meta_importedAt = ''2024-01-01T00:00:00.000Z''\<rparr>"

definition store_ab :: storage where
  "store_ab = \<lparr>albums_data = [albumA, albumB],
     review_status = [''a1'' \<mapsto> statusA],
     album_meta = [''a1'' \<mapsto> metaA, ''b2'' \<mapsto> metaB]\<rparr>"

definition no_fields :: PartialReviewStatus where
  "no_fields = \<lparr>p_albumId = None, p_albumName = None, p_bookName = None, p_category = None,
     p_reviewProgress = None, p_reviewStatus = None, p_selectedImageIndex = None,
     p_selectedImageLink = None\<rparr>"

definition store_a :: storage where
  "store_a = \<lparr>albums_data = [albumA], review_status = [''a1'' \<mapsto> statusA],
     album_meta = [''a1'' \<mapsto> metaA]\<rparr>"

definition store_b :: storage where
  "store_b = \<lparr>albums_data = [albumB], review_status = Map.empty,
     album_meta = [''b2'' \<mapsto> metaB]\<rparr>"

definition statusB :: AlbumReviewStatus where
  "statusB = \<lparr>st_albumId = ''b2'', st_albumName = ''Beta'', st_bookName = ''Book B'',
     st_category = ''cat2'', st_reviewProgress = 0, st_reviewStatus = Unreviewed,
     st_selectedImageIndex = None, st_selectedImageLink = None\<rparr>"

definition store_mixed :: storage where
  "store_mixed = \<lparr>albums_data = [albumB, albumA, albumC],
     review_status = [''a1'' \<mapsto> statusA, ''b2'' \<mapsto> statusB],
     album_meta = Map.empty\<rparr>"

definition store_tb :: storage where
  "store_tb = \<lparr>albums_data = [albumT, albumB], review_status = Map.empty,
     album_meta = Map.empty\<rparr>"

definition store_bt :: storage where
  "store_bt = \<lparr>albums_data = [albumB, albumT], review_status = Map.empty,
     album_meta = Map.empty\<rparr>"

definition store_abc :: storage where
  "store_abc = \<lparr>albums_data = [albumA, albumB, albumC], review_status = Map.empty,
     album_meta = Map.empty\<rparr>"

section \<open>Helper lemmas\<close>

lemmas sample_defs = albumA_def albumA2_def albumB_def albumC_def statusA_def metaA_def
  metaB_def store_ab_def no_fields_def

lemmas store_defs = store_a_def store_b_def store_abc_def

lemmas proto_defs = albumT_def statusB_def store_mixed_def store_tb_def store_bt_def

subsection \<open>Reads of an object\<close>

lemma object_get_own: "obj k = Some v \<Longrightarrow> object_get obj k = Own v"
  by (simp add: object_get_def)

lemma object_get_not_own: "obj k = None \<Longrightarrow> object_get obj k \<noteq> Own v"
  by (simp add: object_get_def)

lemma isReviewed_own:
  "isReviewed st i = (case st i of None \<Rightarrow> False | Some r \<Rightarrow> st_reviewStatus r = Reviewed)"
  by (simp add: isReviewed_def object_get_def split: option.splits)

lemma isUnreviewed_own:
  "isUnreviewed st i =
     (case st i of None \<Rightarrow> i \<notin> set OBJECT_PROTOTYPE_KEYS
      | Some r \<Rightarrow> st_reviewStatus r = Unreviewed)"
  by (simp add: isUnreviewed_def object_get_def split: option.splits)

subsection \<open>Lookup of an album\<close>

lemma findAlbum_None_iff: "findAlbum as i = None \<longleftrightarrow> i \<notin> albumId ` set as"
  by (auto simp: findAlbum_def find_None_iff)

subsection \<open>The insertion-ordered map\<close>

text \<open>
  \<open>map_set\<close> keeps the keys distinct and in the order of their first insertion; in
  the merged map of an import every key is the identifier of its album.
\<close>

lemma map_set_keys:
  "map fst (map_set m k v) = (if k \<in> set (map fst m) then map fst m else map fst m @ [k])"
  by (induction m k v rule: map_set.induct) auto

lemma map_set_keys_set: "fst ` set (map_set m k v) = insert k (fst ` set m)"
  using arg_cong [OF map_set_keys [of m k v], of set] by (simp split: if_splits) blast

lemma map_set_fresh: "k \<notin> fst ` set m \<Longrightarrow> map_set m k v = m @ [(k, v)]"
  by (induction m k v rule: map_set.induct) auto

lemma map_set_distinct: "distinct (map fst m) \<Longrightarrow> distinct (map fst (map_set m k v))"
  by (simp add: map_set_keys)

lemma keyed_map_set: "keyed m \<Longrightarrow> keyed (map_set m (albumId a) a)"
  unfolding keyed_def
  by (induction m "albumId a" a rule: map_set.induct) (auto split: if_splits)

lemma keyed_keys: "keyed m \<Longrightarrow> map fst m = map albumId (map snd m)"
  unfolding keyed_def by (induction m) auto

subsection \<open>The two loops of the import\<close>

lemma keepReviewed_keys:
  "fst ` set (fst (keepReviewed st mt as (m, mk))) =
     fst ` set m \<union> albumId ` set (filter (\<lambda>a. isReviewed st (albumId a)) as)"
  by (induction as arbitrary: m mk) (auto simp: map_set_keys_set)

lemma keepReviewed_distinct:
  "distinct (map fst m) \<Longrightarrow> distinct (map fst (fst (keepReviewed st mt as (m, mk))))"
  by (induction as arbitrary: m mk) (auto simp: map_set_distinct)

lemma keepReviewed_keyed:
  "keyed m \<Longrightarrow> keyed (fst (keepReviewed st mt as (m, mk)))"
  by (induction as arbitrary: m mk) (auto simp: keyed_map_set)

lemma keepReviewed_meta:
  "snd (keepReviewed st mt as (m, mk)) i =
     (if i \<in> albumId ` set (filter (\<lambda>a. isReviewed st (albumId a)) as) \<and> mt i \<noteq> None
      then mt i else mk i)"
  by (induction as arbitrary: m mk) (auto simp: object_get_def split: option.splits)

lemma keepReviewed_values:
  "distinct (map albumId as) \<Longrightarrow> fst ` set m \<inter> albumId ` set as = {} \<Longrightarrow>
   fst (keepReviewed st mt as (m, mk)) =
     m @ map (\<lambda>a. (albumId a, a)) (filter (\<lambda>a. isReviewed st (albumId a)) as)"
proof (induction as arbitrary: m mk)
  case Nil
  then show ?case by simp
next
  case (Cons a as)
  show ?case
  proof (cases "isReviewed st (albumId a)")
    case True
    have fresh: "albumId a \<notin> fst ` set m" using Cons.prems by auto
    have "fst ` set (map_set m (albumId a) a) \<inter> albumId ` set as = {}"
      using Cons.prems by (auto simp: map_set_keys_set)
    then show ?thesis
      using Cons.IH [of "map_set m (albumId a) a"] Cons.prems True
      by (simp add: map_set_fresh [OF fresh])
  next
    case False
    then show ?thesis using Cons.IH [of m mk] Cons.prems by auto
  qed
qed

lemma addNew_keys:
  "fst ` set (fst (addNew now new (m, mk, d))) = fst ` set m \<union> albumId ` set new"
  by (induction new arbitrary: m mk d) (auto simp: map_set_keys_set)

lemma addNew_keyed:
  "keyed m \<Longrightarrow> keyed (fst (addNew now new (m, mk, d)))"
  by (induction new arbitrary: m mk d) (auto simp: keyed_map_set)

lemma addNew_distinct:
  "distinct (map fst m) \<Longrightarrow> distinct (map fst (fst (addNew now new (m, mk, d))))"
  by (induction new arbitrary: m mk d) (auto simp: map_set_distinct)

lemma addNew_meta:
  "fst (snd (addNew now new (m, mk, d))) i =
     (if i \<in> albumId ` set new then Some \<lparr>meta_albumId = i, meta_importedAt = now\<rparr> else mk i)"
  by (induction new arbitrary: m mk d) auto

lemma addNew_dups:
  "distinct (map fst m) \<Longrightarrow>
   snd (snd (addNew now new (m, mk, d))) + card (albumId ` set new - fst ` set m) = d + length new"
proof (induction new arbitrary: m mk d)
  case Nil
  then show ?case by simp
next
  case (Cons a new)
  let ?m' = "map_set m (albumId a) a"
  have d': "distinct (map fst ?m')" using Cons.prems by (rule map_set_distinct)
  have keys: "fst ` set ?m' = insert (albumId a) (fst ` set m)" by (rule map_set_keys_set)
  show ?case
  proof (cases "map_has m (albumId a)")
    case True
    then have isin: "albumId a \<in> fst ` set m" by (simp add: map_has_def)
    then have "fst ` set ?m' = fst ` set m" unfolding keys by (rule insert_absorb)
    then have "albumId ` set (a # new) - fst ` set m = albumId ` set new - fst ` set ?m'"
      using isin by (simp add: insert_Diff_if)
    then show ?thesis using Cons.IH [OF d', of mk' "d + 1" for mk'] True by simp
  next
    case False
    then have nin: "albumId a \<notin> fst ` set m" by (simp add: map_has_def)
    have "albumId ` set (a # new) - fst ` set m =
          insert (albumId a) (albumId ` set new - fst ` set ?m')"
      unfolding keys using nin by auto
    moreover have "albumId a \<notin> albumId ` set new - fst ` set ?m'" unfolding keys by auto
    ultimately have "card (albumId ` set (a # new) - fst ` set m) =
          Suc (card (albumId ` set new - fst ` set ?m'))"
      by simp
    then show ?thesis using Cons.IH [OF d', of mk' d for mk'] False by simp
  qed
qed

subsection \<open>The loop of the batch reject\<close>



lemma rejectOne_no_album: "findAlbum as j = None \<Longrightarrow> rejectOne as st i j = st j"
  by (cases "j = i") (simp_all add: rejectOne_def split: option.splits)




lemma rejectAll_no_album: "findAlbum as j = None \<Longrightarrow> rejectAll as st ids j = st j"
  by (induction ids arbitrary: st) (simp_all add: rejectOne_no_album)






lemma batch_fields:
  "albums_data (batchUpdateReviewStatus ids s) = albums_data s"
  "album_meta (batchUpdateReviewStatus ids s) = album_meta s"
  "review_status (batchUpdateReviewStatus ids s) = rejectAll (albums_data s) (review_status s) ids"
  by (simp_all add: batchUpdateReviewStatus_def saveReviewStatus_def getAllAlbums_def
      getAllReviewStatus_def)

subsection \<open>The store after an import\<close>

text \<open>
  The keys of the merged map are the identifiers of the kept reviewed albums and of the
  incoming rows; the three collections written by \<open>importAlbums\<close> follow from them.
\<close>

lemma importAlbums_unfold:
  "importAlbums now new s =
     (let K = keepReviewed (review_status s) (album_meta s) (albums_data s) ([], Map.empty);
          R = addNew now new (fst K, snd K, 0)
      in (\<lparr>imported = length new, duplicates = snd (snd R)\<rparr>,
          \<lparr>albums_data = map snd (fst R),
           review_status = filter_entries (\<lambda>i. i \<in> fst ` set (fst R)) (review_status s),
           album_meta = filter_entries (\<lambda>i. i \<in> fst ` set (fst R)) (fst (snd R))\<rparr>))"
  by (simp add: importAlbums_def Let_def getAllAlbums_def getAllReviewStatus_def
      getAlbumMetaMap_def saveAlbums_def saveReviewStatus_def saveAlbumMetaMap_def
      map_values_def map_keys_def split: prod.splits)

lemma merged_keys:
  "fst ` set (fst (addNew now new
      (fst (keepReviewed (review_status s) (album_meta s) (albums_data s) ([], Map.empty)),
       snd (keepReviewed (review_status s) (album_meta s) (albums_data s) ([], Map.empty)), 0)))
   = reviewedIds s \<union> albumId ` set new"
proof -
  obtain m mk where K: "keepReviewed (review_status s) (album_meta s) (albums_data s) ([], Map.empty) = (m, mk)"
    by (cases "keepReviewed (review_status s) (album_meta s) (albums_data s) ([], Map.empty)")
  have "fst ` set m = reviewedIds s"
    using keepReviewed_keys [of "review_status s" "album_meta s" "albums_data s" "[]" Map.empty]
    by (simp add: K reviewedIds_def)
  then show ?thesis by (simp add: K addNew_keys)
qed

lemma merged_keyed:
  "keyed (fst (addNew now new
      (fst (keepReviewed st mt as ([], Map.empty)),
       snd (keepReviewed st mt as ([], Map.empty)), 0)))"
proof -
  obtain m mk where K: "keepReviewed st mt as ([], Map.empty) = (m, mk)"
    by (cases "keepReviewed st mt as ([], Map.empty)")
  have "keyed []" by (simp add: keyed_def)
  then have "keyed m" using keepReviewed_keyed [of "[]" st mt as Map.empty] by (simp add: K)
  then show ?thesis by (simp add: K addNew_keyed)
qed

lemma merged_distinct:
  "distinct (map fst (fst (keepReviewed st mt as ([], Map.empty))))"
  using keepReviewed_distinct [of "[]" st mt as Map.empty] by simp

lemma import_imported: "imported (fst (importAlbums now new s)) = length new"
  by (simp add: importAlbums_unfold Let_def)

lemma import_albumIds:
  "albumId ` set (albums_data (snd (importAlbums now new s))) = reviewedIds s \<union> albumId ` set new"
proof -
  let ?R = "addNew now new
      (fst (keepReviewed (review_status s) (album_meta s) (albums_data s) ([], Map.empty)),
       snd (keepReviewed (review_status s) (album_meta s) (albums_data s) ([], Map.empty)), 0)"
  have "map fst (fst ?R) = map albumId (map snd (fst ?R))"
    by (rule keyed_keys) (rule merged_keyed)
  then have "fst ` set (fst ?R) = albumId ` set (map snd (fst ?R))"
    by (metis set_map)
  then show ?thesis
    using merged_keys [of now new s] by (simp add: importAlbums_unfold Let_def)
qed

lemma import_status:
  "review_status (snd (importAlbums now new s)) =
     filter_entries (\<lambda>i. i \<in> reviewedIds s \<union> albumId ` set new) (review_status s)"
  by (simp add: importAlbums_unfold Let_def merged_keys)

lemma import_meta:
  "album_meta (snd (importAlbums now new s)) i =
     (if i \<in> albumId ` set new then Some \<lparr>meta_albumId = i, meta_importedAt = now\<rparr>
      else if i \<in> reviewedIds s then album_meta s i else None)"
proof -
  obtain m mk where K: "keepReviewed (review_status s) (album_meta s) (albums_data s) ([], Map.empty) = (m, mk)"
    by (cases "keepReviewed (review_status s) (album_meta s) (albums_data s) ([], Map.empty)")
  have mk: "mk i = (if i \<in> reviewedIds s then album_meta s i else None)"
    using keepReviewed_meta [of "review_status s" "album_meta s" "albums_data s" "[]" Map.empty i]
    by (auto simp: K reviewedIds_def)
  show ?thesis
    using merged_keys [of now new s] mk
    by (simp add: importAlbums_unfold Let_def K filter_entries_def addNew_meta)
qed

lemma import_duplicates:
  "duplicates (fst (importAlbums now new s)) + card (albumId ` set new - reviewedIds s) = length new"
proof -
  obtain m mk where K: "keepReviewed (review_status s) (album_meta s) (albums_data s) ([], Map.empty) = (m, mk)"
    by (cases "keepReviewed (review_status s) (album_meta s) (albums_data s) ([], Map.empty)")
  have d: "distinct (map fst m)"
    using merged_distinct [of "review_status s" "album_meta s" "albums_data s"] by (simp add: K)
  have "fst ` set m = reviewedIds s"
    using keepReviewed_keys [of "review_status s" "album_meta s" "albums_data s" "[]" Map.empty]
    by (simp add: K reviewedIds_def)
  then show ?thesis
    using addNew_dups [OF d, of now new mk 0] by (simp add: importAlbums_unfold Let_def K)
qed

lemma absentOrUnreviewed_iff: "absentOrUnreviewed st i \<longleftrightarrow> \<not> isReviewed st i"
  by (cases "st i") (auto simp: absentOrUnreviewed_def isReviewed_own intro: ReviewState.exhaust)

subsection \<open>Each operation keeps the collections consistent\<close>

lemma consistent_import: "consistent (snd (importAlbums now new s))"
  unfolding consistent_def import_albumIds
  by (auto simp: import_status import_meta filter_entries_def dom_def split: if_splits)

lemma consistent_update: "consistent s \<Longrightarrow> consistent (snd (updateAlbumReviewStatus i p s))"
proof (cases "findAlbum (getAllAlbums s) i")
  case None
  assume "consistent s"
  then show ?thesis using None by (simp add: updateAlbumReviewStatus_def)
next
  case (Some a)
  assume c: "consistent s"
  have "i \<in> albumId ` set (albums_data s)"
    using Some findAlbum_None_iff [of "albums_data s" i] by (simp add: getAllAlbums_def)
  then show ?thesis
    using c Some
    by (auto simp: consistent_def updateAlbumReviewStatus_def Let_def saveReviewStatus_def
        getAllReviewStatus_def)
qed

lemma rejectAll_dom:
  "dom st \<subseteq> albumId ` set as \<Longrightarrow> dom (rejectAll as st ids) \<subseteq> albumId ` set as"
proof
  fix j assume d: "dom st \<subseteq> albumId ` set as" and j: "j \<in> dom (rejectAll as st ids)"
  show "j \<in> albumId ` set as"
  proof (rule ccontr)
    assume "j \<notin> albumId ` set as"
    then have "findAlbum as j = None" by (simp add: findAlbum_None_iff)
    then have "rejectAll as st ids j = st j" by (rule rejectAll_no_album)
    then have "j \<in> dom st" using j by (simp add: dom_def)
    then show False using d \<open>j \<notin> albumId ` set as\<close> by blast
  qed
qed

lemma consistent_batch: "consistent s \<Longrightarrow> consistent (batchUpdateReviewStatus ids s)"
  by (simp add: consistent_def batch_fields rejectAll_dom)

lemma consistent_delete: "consistent s \<Longrightarrow> consistent (snd (deleteAlbums ids s))"
  by (auto simp: consistent_def deleteAlbums_def Let_def filter_entries_def saveAlbums_def
      saveReviewStatus_def saveAlbumMetaMap_def getAllAlbums_def getAllReviewStatus_def
      getAlbumMetaMap_def dom_def split: if_splits)

lemma consistent_apply: "consistent s \<Longrightarrow> consistent (apply_operation operation s)"
  by (cases operation)
     (simp_all add: consistent_import consistent_update consistent_batch consistent_delete)

lemma consistent_run: "consistent s \<Longrightarrow> consistent (run ops s)"
  by (induction ops arbitrary: s) (simp_all add: consistent_apply)

subsection \<open>Filtered objects\<close>

lemma filter_entries_empty: "filter_entries keep Map.empty = Map.empty"
  by (rule ext) (simp add: filter_entries_def)

lemma import_empty_storage:
  "importAlbums now new empty_storage =
     (let R = addNew now new ([], Map.empty, 0)
      in (\<lparr>imported = length new, duplicates = snd (snd R)\<rparr>,
          \<lparr>albums_data = map snd (fst R),
           review_status = Map.empty,
           album_meta = filter_entries (\<lambda>i. i \<in> fst ` set (fst R)) (fst (snd R))\<rparr>))"
  by (simp add: importAlbums_unfold Let_def empty_storage_def filter_entries_empty)

lemma filter_entries_dom:
  assumes "dom m \<subseteq> A"
  shows "filter_entries (\<lambda>i. i \<in> A) m = m"
proof (rule ext)
  fix i
  show "filter_entries (\<lambda>i. i \<in> A) m i = m i"
  proof (cases "i \<in> A")
    case True
    then show ?thesis by (simp add: filter_entries_def)
  next
    case False
    then have "i \<notin> dom m" using assms by blast
    then have "m i = None" by (simp add: domIff)
    then show ?thesis by (simp add: filter_entries_def)
  qed
qed

subsection \<open>Positions in the unreviewed subsequence\<close>

lemma findIndex_lower: "- 1 \<le> findIndex p xs"
  by (induction xs) (auto simp: Let_def)

lemma findIndex_upper: "findIndex p xs < int (length xs)"
  by (induction xs) (auto simp: Let_def)

lemma findIndex_absent: "(\<forall>x \<in> set xs. \<not> p x) \<Longrightarrow> findIndex p xs = - 1"
  by (induction xs) (auto simp: Let_def)

lemma findIndex_first:
  "(\<forall>x \<in> set xs. \<not> p x) \<Longrightarrow> p y \<Longrightarrow> findIndex p (xs @ y # ys) = int (length xs)"
proof (induction xs)
  case Nil
  then show ?case by simp
next
  case (Cons x xs)
  then have "findIndex p (xs @ y # ys) = int (length xs)" by simp
  then show ?case using Cons.prems by (simp add: Let_def)
qed

lemma findIndex_map: "findIndex p (map f xs) = findIndex (\<lambda>x. p (f x)) xs"
  by (induction xs) (simp_all add: Let_def)

lemma next_by_ids:
  "getNextUnreviewedAlbumId s c =
     (let us = map albumId (unreviewedAlbums s) in
      if us = [] then None
      else
        (let idx = findIndex (\<lambda>i. i = c) us in
         if idx = - 1 then Some (hd us)
         else if idx \<ge> int (length us) - 1 then None
         else Some (us ! nat (idx + 1))))"
proof -
  let ?un = "unreviewedAlbums s"
  let ?idx = "findIndex (\<lambda>a. albumId a = c) ?un"
  have i: "findIndex (\<lambda>i. i = c) (map albumId ?un) = ?idx" by (simp add: findIndex_map)
  have h: "?un \<noteq> [] \<Longrightarrow> albumId (?un ! 0) = hd (map albumId ?un)"
    by (cases ?un) simp_all
  have n: "\<not> ?idx \<ge> int (length ?un) - 1 \<Longrightarrow>
      albumId (?un ! nat (?idx + 1)) = map albumId ?un ! nat (?idx + 1)"
    using findIndex_lower [of "\<lambda>a. albumId a = c" ?un] by (intro nth_map [symmetric]) linarith
  show ?thesis
    unfolding getNextUnreviewedAlbumId_def Let_def i
    using h n by auto
qed

lemma counts_ordered:
  "0 \<le> unreviewedCount s" "unreviewedCount s \<le> totalAlbumCount s"
  "0 \<le> currentIndex s p" "currentIndex s p \<le> unreviewedCount s"
  using findIndex_lower [of "\<lambda>a. Some (albumId a) = p" "unreviewedAlbums s"]
    findIndex_upper [of "\<lambda>a. Some (albumId a) = p" "unreviewedAlbums s"]
  by (simp_all add: unreviewedCount_def totalAlbumCount_def currentIndex_def
      unreviewedAlbums_def getAllAlbums_def)

subsection \<open>The navigator on the list that the page filters\<close>

text \<open>
  Relative to the list that the page itself filters, \<open>getNextUnreviewedAlbumId\<close> returns
  the successor of the first position of the current identifier, and the progress text
  is the clamped count. That list is the unreviewed subsequence of the specification
  whenever no album without a status row has the name of an inherited member as its
  identifier.
\<close>

lemma next_on_filtered_list:
  "(map albumId (unreviewedAlbums s) = [] \<longrightarrow> getNextUnreviewedAlbumId s c = None) \<and>
   (\<forall>x xs. map albumId (unreviewedAlbums s) = x # xs \<and> c \<notin> set (x # xs) \<longrightarrow>
      getNextUnreviewedAlbumId s c = Some x) \<and>
   (\<forall>xs y ys. map albumId (unreviewedAlbums s) = xs @ c # y # ys \<and> c \<notin> set xs \<longrightarrow>
      getNextUnreviewedAlbumId s c = Some y) \<and>
   (\<forall>xs. map albumId (unreviewedAlbums s) = xs @ [c] \<and> c \<notin> set xs \<longrightarrow>
      getNextUnreviewedAlbumId s c = None)"
proof (intro conjI allI impI)
  assume "map albumId (unreviewedAlbums s) = []"
  then show "getNextUnreviewedAlbumId s c = None" by (simp add: next_by_ids)
next
  fix x xs
  assume a: "map albumId (unreviewedAlbums s) = x # xs \<and> c \<notin> set (x # xs)"
  then have "findIndex (\<lambda>i. i = c) (x # xs) = - 1" by (intro findIndex_absent) auto
  then show "getNextUnreviewedAlbumId s c = Some x"
    using a unfolding next_by_ids Let_def by simp
next
  fix xs y ys
  assume a: "map albumId (unreviewedAlbums s) = xs @ c # y # ys \<and> c \<notin> set xs"
  then have "findIndex (\<lambda>i. i = c) (xs @ c # y # ys) = int (length xs)"
    by (intro findIndex_first) auto
  then show "getNextUnreviewedAlbumId s c = Some y"
    using a unfolding next_by_ids Let_def by (simp add: nth_append nat_add_distrib)
next
  fix xs
  assume a: "map albumId (unreviewedAlbums s) = xs @ [c] \<and> c \<notin> set xs"
  then have "findIndex (\<lambda>i. i = c) (xs @ [c]) = int (length xs)"
    by (intro findIndex_first) auto
  then show "getNextUnreviewedAlbumId s c = None"
    using a unfolding next_by_ids Let_def by simp
qed

lemma progress_on_filtered_counts:
  "(a \<noteq> [] \<longrightarrow>
      overallProgressText s (Some a) =
        (clamp 0 (totalAlbumCount s)
           (totalAlbumCount s - unreviewedCount s + currentIndex s (Some a)),
         totalAlbumCount s)) \<and>
   fst (overallProgressText s p) \<le> totalAlbumCount s \<and>
   snd (overallProgressText s p) = totalAlbumCount s \<and>
   (totalAlbumCount s = 0 \<longrightarrow> overallProgressText s p = (0, 0))"
proof -
  note o = counts_ordered [of s]
  have t: "0 \<le> totalAlbumCount s" by (simp add: totalAlbumCount_def)
  have "overallProgressText s (Some a) =
        (clamp 0 (totalAlbumCount s)
           (totalAlbumCount s - unreviewedCount s + currentIndex s (Some a)),
         totalAlbumCount s)" if "a \<noteq> []"
    using that o(1,2) o(3,4) [of "Some a"]
    by (auto simp: overallProgressText_def progressText_def falsy_def clamp_def Let_def)
  moreover have "fst (overallProgressText s p) \<le> totalAlbumCount s"
    using t by (auto simp: overallProgressText_def progressText_def Let_def)
  moreover have "snd (overallProgressText s p) = totalAlbumCount s"
    using t by (auto simp: overallProgressText_def progressText_def Let_def)
  moreover have "totalAlbumCount s = 0 \<longrightarrow> overallProgressText s p = (0, 0)"
    by (auto simp: overallProgressText_def progressText_def Let_def)
  ultimately show ?thesis by blast
qed

lemma unreviewedAlbums_subsequence:
  assumes "\<forall>a \<in> set (albums_data s).
     review_status s (albumId a) = None \<longrightarrow> albumId a \<notin> set OBJECT_PROTOTYPE_KEYS"
  shows "map albumId (unreviewedAlbums s) = unreviewedSubsequence s"
proof -
  have "filter (\<lambda>a. isUnreviewed (review_status s) (albumId a)) (albums_data s) =
        filter (\<lambda>a. absentOrUnreviewed (review_status s) (albumId a)) (albums_data s)"
    using assms
    by (intro filter_cong refl) (auto simp: isUnreviewed_own absentOrUnreviewed_def
        split: option.splits)
  then show ?thesis
    by (simp add: unreviewedAlbums_def unreviewedSubsequence_def getAllAlbums_def
        getAllReviewStatus_def)
qed

lemma next_skips_reviewed:
  "unreviewedSubsequence store_mixed = [''b2'', ''c3''] \<and>
   getNextUnreviewedAlbumId store_mixed ''b2'' = Some ''c3'' \<and>
   getNextUnreviewedAlbumId store_mixed ''a1'' = Some ''b2'' \<and>
   getNextUnreviewedAlbumId store_mixed ''c3'' = None \<and>
   overallProgressText store_mixed (Some ''c3'') = (3, 3) \<and>
   overallProgressText store_mixed (Some ''a1'') = (1, 3)"
  by (simp add: unreviewedSubsequence_def absentOrUnreviewed_def getNextUnreviewedAlbumId_def
      overallProgressText_def progressText_def falsy_def totalAlbumCount_def
      unreviewedCount_def currentIndex_def unreviewedAlbums_def isUnreviewed_own
      OBJECT_PROTOTYPE_KEYS_def getAllAlbums_def getAllReviewStatus_def Let_def proto_defs
      sample_defs)

lemma store_tb_imported:
  "albums_data (run [ImportBatch ''2024-01-01T00:00:00.000Z'' [albumT, albumB]] empty_storage)
     = albums_data store_tb \<and>
   review_status (run [ImportBatch ''2024-01-01T00:00:00.000Z'' [albumT, albumB]] empty_storage)
     = review_status store_tb \<and>
   albums_data (run [ImportBatch ''2024-01-01T00:00:00.000Z'' [albumB, albumT]] empty_storage)
     = albums_data store_bt \<and>
   review_status (run [ImportBatch ''2024-01-01T00:00:00.000Z'' [albumB, albumT]] empty_storage)
     = review_status store_bt"
  by (simp add: import_empty_storage Let_def proto_defs sample_defs)

section \<open>Import over a reviewed album\<close>

text \<open>
  C1. The claim: an album whose status is reviewed keeps its Albums row, its status row
  and its metadata row (with the original import time) when a batch holds a row with its
  identifier; the incoming row is dropped, still counted in \<open>imported\<close> and in
  \<open>duplicates\<close>. The second loop of \<open>importAlbums\<close> has no test for the reviewed rows
  kept by the first loop, although its comment says that they do not reach it. On
  \<open>store_a\<close>, where \<open>a1\<close> is reviewed, importing the single row \<open>albumA2\<close> replaces the
  Albums row by the incoming row and the metadata row by one with the new import time;
  the status row is kept, \<open>imported\<close> is 1 and \<open>duplicates\<close> is 1.
\<close>

theorem import_overwrites_reviewed_album:
  "isReviewed (review_status store_a) ''a1'' \<and>
   albums_data store_a = [albumA] \<and>
   album_meta store_a ''a1'' = Some metaA \<and>
   albumId albumA2 = ''a1'' \<and>
   albums_data (snd (importAlbums ''2024-02-02T00:00:00.000Z'' [albumA2] store_a)) = [albumA2] \<and>
   albumA2 \<noteq> albumA \<and>
   album_meta (snd (importAlbums ''2024-02-02T00:00:00.000Z'' [albumA2] store_a)) ''a1'' =
     Some \<lparr>meta_albumId = ''a1'', meta_importedAt = ''2024-02-02T00:00:00.000Z''\<rparr> \<and>
   review_status (snd (importAlbums ''2024-02-02T00:00:00.000Z'' [albumA2] store_a)) ''a1'' =
     Some statusA \<and>
   fst (importAlbums ''2024-02-02T00:00:00.000Z'' [albumA2] store_a) =
     \<lparr>imported = 1, duplicates = 1\<rparr>"
  by (simp add: importAlbums_unfold Let_def store_a_def sample_defs isReviewed_own
      filter_entries_def map_has_def)

section \<open>Import of an empty batch\<close>

text \<open>
  C2, as stated: importing an empty batch leaves the three collections unchanged. On
  \<open>store_b\<close>, whose only album has no status row, the import of the empty batch removes
  that album.
\<close>

theorem import_empty_batch_counterexample:
  "albums_data (snd (importAlbums ''2024-02-02T00:00:00.000Z'' [] store_b)) \<noteq> albums_data store_b"
  by (simp add: importAlbums_unfold Let_def store_b_def sample_defs isReviewed_own)

text \<open>
  C2, amended. Importing an empty batch returns \<open>imported = 0\<close> and \<open>duplicates = 0\<close>
  and keeps the reviewed part of the store only: the status rows and the metadata rows
  are restricted to the identifiers of the reviewed albums, and, the stored identifiers
  being distinct, the Albums collection becomes the stored albums whose status is
  reviewed, in stored order. The store is unchanged when the stored identifiers are
  distinct, every stored album is reviewed, and both maps have keys among the stored
  identifiers only.
\<close>

theorem import_empty_batch:
  "fst (importAlbums now [] s) = \<lparr>imported = 0, duplicates = 0\<rparr> \<and>
   review_status (snd (importAlbums now [] s)) =
     filter_entries (\<lambda>i. i \<in> reviewedIds s) (review_status s) \<and>
   album_meta (snd (importAlbums now [] s)) =
     filter_entries (\<lambda>i. i \<in> reviewedIds s) (album_meta s) \<and>
   (distinct (map albumId (albums_data s)) \<longrightarrow>
      albums_data (snd (importAlbums now [] s)) =
        filter (\<lambda>a. isReviewed (review_status s) (albumId a)) (albums_data s)) \<and>
   (distinct (map albumId (albums_data s)) \<and>
    (\<forall>a \<in> set (albums_data s). isReviewed (review_status s) (albumId a)) \<and>
    dom (review_status s) \<subseteq> albumId ` set (albums_data s) \<and>
    dom (album_meta s) \<subseteq> albumId ` set (albums_data s) \<longrightarrow>
      snd (importAlbums now [] s) = s)"
proof -
  let ?s' = "snd (importAlbums now [] s)"
  let ?rev = "filter (\<lambda>a. isReviewed (review_status s) (albumId a)) (albums_data s)"
  have counts: "fst (importAlbums now [] s) = \<lparr>imported = 0, duplicates = 0\<rparr>"
    by (simp add: importAlbums_unfold Let_def)
  have st: "review_status ?s' = filter_entries (\<lambda>i. i \<in> reviewedIds s) (review_status s)"
    by (simp add: import_status)
  have mt: "album_meta ?s' = filter_entries (\<lambda>i. i \<in> reviewedIds s) (album_meta s)"
    by (rule ext) (simp add: import_meta filter_entries_def)
  have al: "albums_data ?s' = ?rev" if "distinct (map albumId (albums_data s))"
    using keepReviewed_values [OF that, of "[]" "review_status s" "album_meta s" Map.empty]
    by (simp add: importAlbums_unfold Let_def comp_def)
  have same: "?s' = s"
    if d: "distinct (map albumId (albums_data s))"
    and r: "\<forall>a \<in> set (albums_data s). isReviewed (review_status s) (albumId a)"
    and c1: "dom (review_status s) \<subseteq> albumId ` set (albums_data s)"
    and c2: "dom (album_meta s) \<subseteq> albumId ` set (albums_data s)"
  proof -
    from r have f: "?rev = albums_data s" by simp
    then have ids: "reviewedIds s = albumId ` set (albums_data s)" by (simp add: reviewedIds_def)
    have "albums_data ?s' = albums_data s" using al [OF d] f by simp
    moreover have "review_status ?s' = review_status s"
      unfolding st ids using c1 by (rule filter_entries_dom)
    moreover have "album_meta ?s' = album_meta s"
      unfolding mt ids using c2 by (rule filter_entries_dom)
    ultimately show ?thesis by simp
  qed
  from counts st mt al same show ?thesis by blast
qed

theorem import_empty_batch_witness:
  "distinct (map albumId (albums_data store_ab)) \<and>
   albums_data (snd (importAlbums ''t1'' [] store_ab)) = [albumA] \<and>
   fst (importAlbums ''t1'' [] store_ab) = \<lparr>imported = 0, duplicates = 0\<rparr> \<and>
   distinct (map albumId (albums_data store_a)) \<and>
   isReviewed (review_status store_a) (albumId albumA) \<and>
   snd (importAlbums ''t1'' [] store_a) = store_a"
proof -
  have d: "distinct (map albumId (albums_data store_ab))" by (simp add: sample_defs)
  have f: "filter (\<lambda>a. isReviewed (review_status store_ab) (albumId a)) (albums_data store_ab)
      = [albumA]" by (simp add: sample_defs isReviewed_own)
  have da: "distinct (map albumId (albums_data store_a))" by (simp add: store_defs)
  have r: "\<forall>a \<in> set (albums_data store_a). isReviewed (review_status store_a) (albumId a)"
    by (simp add: store_defs sample_defs isReviewed_own)
  have c1: "dom (review_status store_a) \<subseteq> albumId ` set (albums_data store_a)"
    by (simp add: store_defs sample_defs)
  have c2: "dom (album_meta store_a) \<subseteq> albumId ` set (albums_data store_a)"
    by (simp add: store_defs sample_defs)
  have "albums_data (snd (importAlbums ''t1'' [] store_ab)) = [albumA]"
    using import_empty_batch [of "''t1''" store_ab] d f by simp
  moreover have "fst (importAlbums ''t1'' [] store_ab) = \<lparr>imported = 0, duplicates = 0\<rparr>"
    using import_empty_batch [of "''t1''" store_ab] by blast
  moreover have "snd (importAlbums ''t1'' [] store_a) = store_a"
    using import_empty_batch [of "''t1''" store_a] da r c1 c2 by blast
  moreover have "isReviewed (review_status store_a) (albumId albumA)"
    using r by (simp add: store_defs)
  ultimately show ?thesis using d da by blast
qed

section \<open>Import replaces the unreviewed part\<close>

text \<open>
  C3. For every import, every stored album whose status is absent or unreviewed and whose
  identifier is not in the incoming batch is gone from the Albums collection after the
  call, and so are the status row and the metadata row of its identifier.
\<close>

theorem import_drops_unreviewed:
  "\<forall>a \<in> set (albums_data s).
     absentOrUnreviewed (review_status s) (albumId a) \<and> albumId a \<notin> albumId ` set new \<longrightarrow>
       albumId a \<notin> albumId ` set (albums_data (snd (importAlbums now new s))) \<and>
       review_status (snd (importAlbums now new s)) (albumId a) = None \<and>
       album_meta (snd (importAlbums now new s)) (albumId a) = None"
  by (auto simp: import_albumIds import_status import_meta filter_entries_def reviewedIds_def
      absentOrUnreviewed_iff)

theorem import_drops_unreviewed_witness:
  "albumB \<in> set (albums_data store_ab) \<and>
   absentOrUnreviewed (review_status store_ab) (albumId albumB) \<and>
   albumId albumB \<notin> albumId ` set [albumC] \<and>
   albumId albumB \<notin> albumId ` set (albums_data (snd (importAlbums ''t1'' [albumC] store_ab))) \<and>
   review_status (snd (importAlbums ''t1'' [albumC] store_ab)) (albumId albumB) = None \<and>
   album_meta (snd (importAlbums ''t1'' [albumC] store_ab)) (albumId albumB) = None"
proof -
  have 1: "albumB \<in> set (albums_data store_ab)" by (simp add: sample_defs)
  have 2: "absentOrUnreviewed (review_status store_ab) (albumId albumB)"
    by (simp add: sample_defs absentOrUnreviewed_def)
  have 3: "albumId albumB \<notin> albumId ` set [albumC]" by (simp add: sample_defs)
  from import_drops_unreviewed [of store_ab "[albumC]" "''t1''"] 1 2 3
  show ?thesis by blast
qed

section \<open>The invariant across the collections\<close>

text \<open>
  C4. In every store reached from the empty store by any sequence of imports, status
  updates, batch rejects and deletions, the keys of the status map and the keys of the
  metadata map are identifiers of albums of the Albums collection.
\<close>

theorem subordinate_keys_invariant:
  "dom (review_status (run ops empty_storage)) \<subseteq> albumId ` set (albums_data (run ops empty_storage)) \<and>
   dom (album_meta (run ops empty_storage)) \<subseteq> albumId ` set (albums_data (run ops empty_storage))"
proof -
  have "consistent empty_storage" by (simp add: consistent_def empty_storage_def)
  then have "consistent (run ops empty_storage)" by (rule consistent_run)
  then show ?thesis by (simp add: consistent_def)
qed

section \<open>Status update of an unknown album\<close>

text \<open>
  C5. For every store and every identifier that no album of the Albums collection has,
  \<open>updateAlbumReviewStatus\<close> fails with the not-found error and the store after the call
  is the store before it (none of the three collections is written); when an album has
  the identifier, the call does not fail.
\<close>

theorem updateStatus_missing_album:
  "(i \<notin> albumId ` set (albums_data s) \<longrightarrow>
      updateAlbumReviewStatus i p s = (Inl AlbumNotFound, s)) \<and>
   (i \<in> albumId ` set (albums_data s) \<longrightarrow>
      fst (updateAlbumReviewStatus i p s) = Inr ())"
proof (cases "findAlbum (getAllAlbums s) i")
  case None
  then show ?thesis
    using findAlbum_None_iff [of "albums_data s" i]
    by (simp add: updateAlbumReviewStatus_def getAllAlbums_def)
next
  case (Some a)
  then show ?thesis
    using findAlbum_None_iff [of "albums_data s" i]
    by (simp add: updateAlbumReviewStatus_def getAllAlbums_def Let_def)
qed

theorem updateStatus_missing_album_witness:
  "''zz'' \<notin> albumId ` set (albums_data store_ab) \<and>
   updateAlbumReviewStatus ''zz'' no_fields store_ab = (Inl AlbumNotFound, store_ab) \<and>
   ''b2'' \<in> albumId ` set (albums_data store_ab) \<and>
   fst (updateAlbumReviewStatus ''b2'' no_fields store_ab) = Inr ()"
proof -
  have absent: "''zz'' \<notin> albumId ` set (albums_data store_ab)"
    by (simp add: sample_defs)
  have present: "''b2'' \<in> albumId ` set (albums_data store_ab)"
    by (simp add: sample_defs)
  from absent present show ?thesis
    using updateStatus_missing_album [of "''zz''" store_ab no_fields]
      updateStatus_missing_album [of "''b2''" store_ab no_fields]
    by blast
qed

section \<open>Batch reject\<close>



section \<open>Deleting records\<close>

text \<open>
  C7. For every store and every list of requested identifiers, after \<open>deleteAlbums\<close> no
  collection holds a requested identifier; the returned count is the number of distinct
  requested identifiers, whether or not they existed; the albums that were not requested
  stay, in order, and so do the status and metadata rows of every identifier that was not
  requested; the empty request returns 0 and leaves the store as it is.
\<close>

theorem deleteAlbums_removes_requested:
  "fst (deleteAlbums ids s) = card (set ids) \<and>
   (\<forall>i \<in> set ids.
      i \<notin> albumId ` set (albums_data (snd (deleteAlbums ids s))) \<and>
      review_status (snd (deleteAlbums ids s)) i = None \<and>
      album_meta (snd (deleteAlbums ids s)) i = None) \<and>
   albums_data (snd (deleteAlbums ids s)) =
      filter (\<lambda>a. albumId a \<notin> set ids) (albums_data s) \<and>
   (\<forall>i. i \<notin> set ids \<longrightarrow>
      review_status (snd (deleteAlbums ids s)) i = review_status s i \<and>
      album_meta (snd (deleteAlbums ids s)) i = album_meta s i) \<and>
   (ids = [] \<longrightarrow> deleteAlbums ids s = (0, s))"
proof (cases "ids = []")
  case True
  then show ?thesis by (simp add: deleteAlbums_def)
next
  case False
  then have "length (remdups ids) \<noteq> 0" by simp
  then show ?thesis
    by (auto simp: deleteAlbums_def Let_def filter_entries_def saveAlbums_def
        saveReviewStatus_def saveAlbumMetaMap_def getAllAlbums_def getAllReviewStatus_def
        getAlbumMetaMap_def length_remdups_card_conv)
qed

theorem deleteAlbums_removes_requested_witness:
  "fst (deleteAlbums [''a1'', ''zz'', ''a1''] store_ab) = 2 \<and>
   ''a1'' \<in> set [''a1'', ''zz'', ''a1''] \<and>
   ''a1'' \<notin> albumId ` set (albums_data (snd (deleteAlbums [''a1'', ''zz'', ''a1''] store_ab))) \<and>
   review_status (snd (deleteAlbums [''a1'', ''zz'', ''a1''] store_ab)) ''a1'' = None \<and>
   album_meta (snd (deleteAlbums [''a1'', ''zz'', ''a1''] store_ab)) ''a1'' = None \<and>
   albums_data (snd (deleteAlbums [''a1'', ''zz'', ''a1''] store_ab)) = [albumB] \<and>
   ''b2'' \<notin> set [''a1'', ''zz'', ''a1''] \<and>
   album_meta (snd (deleteAlbums [''a1'', ''zz'', ''a1''] store_ab)) ''b2'' = Some metaB \<and>
   deleteAlbums [] store_ab = (0, store_ab)"
proof -
  let ?ids = "[''a1'', ''zz'', ''a1'']"
  note del = deleteAlbums_removes_requested [of ?ids store_ab]
  have req: "''a1'' \<in> set ?ids" by simp
  have other: "''b2'' \<notin> set ?ids" by simp
  have c: "card (set ?ids) = 2" unfolding card_set by simp
  have f: "filter (\<lambda>a. albumId a \<notin> set ?ids) (albums_data store_ab) = [albumB]"
    by (simp add: sample_defs)
  have m: "album_meta store_ab ''b2'' = Some metaB" by (simp add: sample_defs)
  from del have "fst (deleteAlbums ?ids store_ab) = 2" using c by simp
  moreover from del req have
    "''a1'' \<notin> albumId ` set (albums_data (snd (deleteAlbums ?ids store_ab))) \<and>
     review_status (snd (deleteAlbums ?ids store_ab)) ''a1'' = None \<and>
     album_meta (snd (deleteAlbums ?ids store_ab)) ''a1'' = None" by blast
  moreover from del f have "albums_data (snd (deleteAlbums ?ids store_ab)) = [albumB]" by simp
  moreover from del other m have
    "album_meta (snd (deleteAlbums ?ids store_ab)) ''b2'' = Some metaB" by simp
  moreover from deleteAlbums_removes_requested [of "[]" store_ab]
  have "deleteAlbums [] store_ab = (0, store_ab)" by simp
  ultimately show ?thesis using req other by blast
qed

section \<open>The next unreviewed album\<close>

text \<open>
  C8. The claim: with the unreviewed subsequence being the Albums collection in stored
  order, filtered to the identifiers whose status is absent or unreviewed,
  \<open>getNextUnreviewedAlbumId\<close> returns the first element of the subsequence for a current
  identifier that is not in it, and the element right after the current identifier
  otherwise. The filter of the page reads the status object with \<open>allStatus[a.albumId]\<close>;
  for the album \<open>toString\<close>, which has no status row, the read finds the inherited
  member and the album is left out. In \<open>store_tb\<close> the subsequence is \<open>toString, b2\<close> and
  the current identifier \<open>zz\<close> is not in it, but the answer is \<open>b2\<close>, not \<open>toString\<close>;
  in \<open>store_bt\<close> the subsequence is \<open>b2, toString\<close>, but the answer for \<open>b2\<close> is
  nothing, not \<open>toString\<close>.
\<close>

theorem nextUnreviewed_inherited_member:
  "unreviewedSubsequence store_tb = [''toString'', ''b2''] \<and>
   getNextUnreviewedAlbumId store_tb ''zz'' = Some ''b2'' \<and>
   unreviewedSubsequence store_bt = [''b2'', ''toString''] \<and>
   getNextUnreviewedAlbumId store_bt ''b2'' = None"
  by (simp add: unreviewedSubsequence_def absentOrUnreviewed_def getNextUnreviewedAlbumId_def
      unreviewedAlbums_def isUnreviewed_own OBJECT_PROTOTYPE_KEYS_def getAllAlbums_def
      getAllReviewStatus_def proto_defs sample_defs)

section \<open>The progress counter\<close>

text \<open>
  C9. The claim: with \<open>T\<close> the number of albums, \<open>U\<close> the number of unreviewed albums
  and \<open>P\<close> the 1-based position of the current album in the unreviewed subsequence, the
  progress text shows \<open>clamp 0 T ((T - U) + P)\<close> over \<open>T\<close>. In \<open>store_bt\<close>, with the
  current album \<open>toString\<close>, \<open>T = 2\<close>, \<open>U = 2\<close> and \<open>P = 2\<close>, so that the count is 2;
  the page leaves the album \<open>toString\<close> out of its unreviewed list, as in C8, counts one
  unreviewed album and position 0, and shows 1 over 2.
\<close>

theorem progress_inherited_member:
  "totalAlbumCount store_bt = 2 \<and>
   int (length (unreviewedSubsequence store_bt)) = 2 \<and>
   findIndex (\<lambda>i. i = ''toString'') (unreviewedSubsequence store_bt) + 1 = 2 \<and>
   clamp 0 2 ((2 - 2) + 2) = 2 \<and>
   overallProgressText store_bt (Some ''toString'') = (1, 2)"
  by (simp add: unreviewedSubsequence_def absentOrUnreviewed_def overallProgressText_def
      progressText_def falsy_def totalAlbumCount_def unreviewedCount_def currentIndex_def
      unreviewedAlbums_def isUnreviewed_own OBJECT_PROTOTYPE_KEYS_def getAllAlbums_def
      getAllReviewStatus_def clamp_def Let_def proto_defs sample_defs)

section \<open>A duplicate inside one batch\<close>

text \<open>
  C10. Importing two rows with the same identifier into the empty store leaves one Albums
  row, the later of the two, and returns \<open>imported = 2\<close> and \<open>duplicates = 1\<close>. In
  general \<open>imported\<close> is the length of the batch, and \<open>duplicates\<close> counts the incoming
  rows that met their identifier in the merged map, which starts with the kept reviewed
  albums and grows with each row: the length of the batch less the number of distinct
  incoming identifiers that are not among the kept reviewed albums.
\<close>

theorem import_duplicate_in_batch:
  "(albumId a = albumId b \<longrightarrow>
      fst (importAlbums now [a, b] empty_storage) = \<lparr>imported = 2, duplicates = 1\<rparr> \<and>
      albums_data (snd (importAlbums now [a, b] empty_storage)) = [b]) \<and>
   imported (fst (importAlbums now new s)) = length new \<and>
   duplicates (fst (importAlbums now new s)) =
      length new - card (albumId ` set new - reviewedIds s)"
proof -
  have "albumId a = albumId b \<longrightarrow>
      fst (importAlbums now [a, b] empty_storage) = \<lparr>imported = 2, duplicates = 1\<rparr> \<and>
      albums_data (snd (importAlbums now [a, b] empty_storage)) = [b]"
    by (simp add: import_empty_storage Let_def map_has_def)
  moreover have "duplicates (fst (importAlbums now new s)) =
      length new - card (albumId ` set new - reviewedIds s)"
    using import_duplicates [of now new s] by arith
  ultimately show ?thesis by (simp add: import_imported)
qed

theorem import_duplicate_in_batch_witness:
  "albumId albumA = albumId albumA2 \<and>
   fst (importAlbums ''t1'' [albumA, albumA2] empty_storage) = \<lparr>imported = 2, duplicates = 1\<rparr> \<and>
   albums_data (snd (importAlbums ''t1'' [albumA, albumA2] empty_storage)) = [albumA2]"
proof -
  have h: "albumId albumA = albumId albumA2" by (simp add: sample_defs)
  from import_duplicate_in_batch [of albumA albumA2 "''t1''"] h show ?thesis by blast
qed

end
